theory Spec2Isabelle
  imports Main "HOL-Library.Sublist"
begin

section \<open>The QR check-in page of the RSVP admin dashboard\<close>

text \<open>
  A shallow embedding of the check-in page component (\<^verbatim>\<open>CheckInPage\<close>) and of the API
  client it calls (\<^verbatim>\<open>src/lib/api.ts\<close>). React state variables and refs are the fields
  of the record \<open>page\<close>; every handler of the component is a function from \<open>page\<close> to
  \<open>page\<close>. What the surroundings answer (the HTTP exchange of a request, the list of
  cameras) is a parameter of the handler that asks for it. The requests the page sends, the
  toasts it shows and the \<^verbatim>\<open>reset()\<close> calls it makes on a reader are logged in the
  state, so that a statement about "no commit call" is a statement about the log.
\<close>

subsection \<open>JavaScript values\<close>

text \<open>
  A JavaScript string is a sequence of UTF-16 code units; a code unit is a number, and
  \<open>units\<close> gives the string of a literal written with the characters of Latin-1, whose
  code units are their codes.
\<close>

type_synonym jsstring = "nat list"

definition units :: "string \<Rightarrow> jsstring" where
  "units s = map of_char s"

text \<open>
  \<^verbatim>\<open>String.prototype.toLowerCase\<close>. The result is put together position by position. A
  code unit of ASCII becomes its lower-case letter whatever surrounds it: the letters A to
  Z are moved to a to z, every other unit of ASCII stays. What a unit outside ASCII becomes
  (one code unit, several, or none for the second half of a surrogate pair, and for the
  capital sigma depending on its neighbours) is the case mapping of the Unicode tables of
  the engine, which the source does not hold: it is the parameter \<open>unicode\<close>, which
  receives the string and the position.
\<close>

definition toLowerCase_ascii :: "nat \<Rightarrow> nat" where
  "toLowerCase_ascii c = (if 0x41 \<le> c \<and> c \<le> 0x5A then c + 0x20 else c)"

definition toLowerCase :: "(jsstring \<Rightarrow> nat \<Rightarrow> jsstring) \<Rightarrow> jsstring \<Rightarrow> jsstring" where
  "toLowerCase unicode s =
     concat (map (\<lambda>i. if s ! i < 0x80 then [toLowerCase_ascii (s ! i)] else unicode s i)
               [0..<length s])"

text \<open>\<^verbatim>\<open>s.includes(sub)\<close>: \<open>sub\<close> occurs in \<open>s\<close> as a contiguous run.\<close>

fun str_includes :: "'a list \<Rightarrow> 'a list \<Rightarrow> bool" where
  "str_includes [] sub = (sub = [])"
| "str_includes (c # cs) sub = (prefix sub (c # cs) \<or> str_includes cs sub)"

text \<open>
  \<^verbatim>\<open>String.prototype.trim\<close> removes, at both ends, the code units of the productions
  WhiteSpace and LineTerminator of the language: tab, vertical tab, form feed, the byte
  order mark, the space separators of Unicode (space, no-break space, U+1680, U+2000 to
  U+200A, U+202F, U+205F, U+3000), line feed, carriage return, and the line and paragraph
  separators.
\<close>

definition isWhiteSpace :: "nat \<Rightarrow> bool" where
  "isWhiteSpace c =
     (c \<in> set [0x0009, 0x000B, 0x000C, 0xFEFF,
               0x0020, 0x00A0, 0x1680, 0x2000, 0x2001, 0x2002, 0x2003, 0x2004, 0x2005,
               0x2006, 0x2007, 0x2008, 0x2009, 0x200A, 0x202F, 0x205F, 0x3000,
               0x000A, 0x000D, 0x2028, 0x2029])"

definition trim :: "jsstring \<Rightarrow> jsstring" where
  "trim s = rev (dropWhile isWhiteSpace (rev (dropWhile isWhiteSpace s)))"

text \<open>
  \<^verbatim>\<open>a || b\<close> on an optional string: the left operand when it is a non-empty string, the
  right one when it is undefined or empty.
\<close>

definition or_else :: "jsstring option \<Rightarrow> jsstring \<Rightarrow> jsstring" where
  "or_else a b = (case a of None \<Rightarrow> b | Some x \<Rightarrow> if x = [] then b else x)"

text \<open>Truthiness of an optional boolean: undefined and false are falsy.\<close>

definition truthy :: "bool option \<Rightarrow> bool" where
  "truthy b = (b = Some True)"

text \<open>The decimal digits of a number, as a template literal prints it.\<close>

fun showNat :: "nat \<Rightarrow> jsstring" where
  "showNat n =
     (if n < 10 then [0x30 + n]
      else showNat (n div 10) @ [0x30 + n mod 10])"

declare showNat.simps [simp del]

text \<open>
  What a \<^verbatim>\<open>throw\<close> or a rejected promise carries: an \<^verbatim>\<open>APIError\<close> with its status code
  and message, another \<^verbatim>\<open>Error\<close> with its message, \<^verbatim>\<open>null\<close>, \<^verbatim>\<open>undefined\<close>, or any
  other value, with its \<^verbatim>\<open>message\<close> property if it has one.
\<close>

datatype js_error =
    APIError nat jsstring
  | Error jsstring
  | NullValue
  | UndefinedValue
  | OtherValue "jsstring option"

text \<open>
  \<^verbatim>\<open>err.message\<close> of a caught value of type \<^verbatim>\<open>any\<close>. Reading a property of \<^verbatim>\<open>null\<close> or
  of \<^verbatim>\<open>undefined\<close> throws a \<^verbatim>\<open>TypeError\<close> (\<open>Inl\<close>), here with the wording of V8.
\<close>

fun error_message :: "js_error \<Rightarrow> js_error + jsstring option" where
  "error_message (APIError statusCode m) = Inr (Some m)"
| "error_message (Error m) = Inr (Some m)"
| "error_message NullValue =
     Inl (Error (units ''Cannot read properties of null (reading 'message')''))"
| "error_message UndefinedValue =
     Inl (Error (units ''Cannot read properties of undefined (reading 'message')''))"
| "error_message (OtherValue m) = Inr m"

subsection \<open>The API client\<close>

text \<open>
  A response as \<^verbatim>\<open>handleResponse\<close> reads it: the status and its text, whether the
  content type includes \<^verbatim>\<open>application/json\<close>, and what reading the body gives.
  \<open>errorData\<close> is the body of a response that is not ok: \<open>None\<close> when
  \<^verbatim>\<open>response.json()\<close> throws, otherwise the \<^verbatim>\<open>message\<close> field of the parsed body (itself
  optional). \<open>json\<close> is what \<^verbatim>\<open>response.json()\<close> settles to on an ok response, and
  \<open>textBody\<close> is the text body seen through the cast \<^verbatim>\<open>as any\<close>.
\<close>

record 'a response =
  status :: nat
  statusText :: jsstring
  isJson :: bool
  errorData :: "jsstring option option"
  json :: "js_error + 'a"
  textBody :: 'a

definition ok :: "'a response \<Rightarrow> bool" where
  "ok r = (200 \<le> status r \<and> status r \<le> 299)"

text \<open>
  \<^verbatim>\<open>handleResponse\<close>. The clearing of the stored session and the redirect on a 401 act
  on the browser, not on the page state, and are left out; the \<^verbatim>\<open>APIError\<close> is thrown
  all the same.
\<close>

definition handleResponse :: "'a response \<Rightarrow> js_error + 'a" where
  "handleResponse r =
     (if \<not> ok r then
        (let errorMessage = units ''HTTP '' @ showNat (status r) @ units '': '' @ statusText r;
             errorMessage' =
               (if isJson r then
                  (case errorData r of
                     Some m \<Rightarrow> or_else m errorMessage
                   | None \<Rightarrow> errorMessage)
                else errorMessage)
         in Inl (APIError (status r) errorMessage'))
      else if isJson r then json r
      else Inr (textBody r))"

text \<open>What \<^verbatim>\<open>fetch\<close> settles to: a rejection, or a response.\<close>

datatype 'a fetch_outcome = Rejects js_error | Resolves "'a response"

text \<open>
  \<^verbatim>\<open>request\<close>. The \<^verbatim>\<open>catch\<close> sees what \<^verbatim>\<open>fetch\<close> throws: an \<^verbatim>\<open>APIError\<close> is thrown
  again, anything else becomes the network error with status 0. The promise of
  \<^verbatim>\<open>handleResponse\<close> is returned without \<^verbatim>\<open>await\<close>, so what it rejects with passes
  through unchanged.
\<close>

definition request :: "'a fetch_outcome \<Rightarrow> js_error + 'a" where
  "request f =
     (case f of
        Rejects err \<Rightarrow>
          (case err of
             APIError statusCode m \<Rightarrow> Inl err
           | _ \<Rightarrow> Inl (APIError 0 (units ''Network error. Please check your connection.'')))
      | Resolves r \<Rightarrow> handleResponse r)"

text \<open>\<^verbatim>\<open>getErrorMessage\<close>: the text shown for a caught error.\<close>

fun getErrorMessage :: "js_error \<Rightarrow> jsstring" where
  "getErrorMessage (APIError statusCode m) =
     (if statusCode = 400 then or_else (Some m) (units ''Invalid request. Please check your input.'')
      else if statusCode = 401 then
        or_else (Some m) (units ''Authentication failed. Please log in again.'')
      else if statusCode = 403 then (units ''You don't have permission to perform this action.'')
      else if statusCode = 404 then (units ''Resource not found.'')
      else if statusCode = 500 then (units ''Server error. Please try again later.'')
      else or_else (Some m) (units ''An unexpected error occurred.''))"
| "getErrorMessage (Error m) = m"
| "getErrorMessage NullValue = units ''An unexpected error occurred.''"
| "getErrorMessage UndefinedValue = units ''An unexpected error occurred.''"
| "getErrorMessage (OtherValue m) = units ''An unexpected error occurred.''"

subsection \<open>The data of the page\<close>

datatype AttendeeStatus = CONFIRMED | WAITLISTED | CANCELLED

record PlusOne =
  plusOne_name :: jsstring
  plusOne_company :: jsstring
  plusOne_title :: jsstring
  plusOne_email :: jsstring

text \<open>
  The attendee of a \<^verbatim>\<open>CheckInResult\<close>: the fields of \<^verbatim>\<open>Attendee\<close> that the page reads or
  renders, with the two the result type adds (\<^verbatim>\<open>checkedInAt\<close>, \<^verbatim>\<open>alreadyCheckedIn\<close>).
\<close>

record Attendee =
  attendee_id :: jsstring
  name :: jsstring
  company :: jsstring
  title :: jsstring
  email :: jsstring
  attendee_status :: AttendeeStatus
  registrationId :: jsstring
  eventId :: jsstring
  checkedInAt :: "jsstring option"
  plusOne :: "PlusOne option"
  alreadyCheckedIn :: "bool option"

record CheckInResult =
  valid :: "bool option"
  success :: "bool option"
  attendee :: "Attendee option"
  message :: "jsstring option"

datatype ToastType = success_toast | error_toast | warning_toast | info_toast

datatype toast = Toast ToastType jsstring

datatype api_call = GET jsstring | POST jsstring

record device =
  deviceId :: jsstring
  label :: jsstring

text \<open>
  The state of the page. \<open>scanning\<close>, \<open>result\<close>, \<open>manualCode\<close>, \<open>loading\<close>,
  \<open>selectedEvent\<close>, \<open>cameraError\<close> and \<open>toasts\<close> are the React state variables,
  \<open>codeReaderRef\<close> is the ref. A reader is a number: \<open>nextReader\<close> is the one that
  \<^verbatim>\<open>new BrowserQRCodeReader()\<close> gives next. \<open>streams\<close> holds the decode subscriptions
  that are open: the reader, the device it reads and the selected event that the callback
  closed over. \<open>resets\<close> logs the \<^verbatim>\<open>reset()\<close> calls and \<open>calls\<close> the requests sent.
  \<open>pending\<close> holds the calls of \<^verbatim>\<open>validateAndCheckIn\<close> that wait for the server, oldest
  first: the selected event each one closed over, and its code. \<open>unhandled\<close> logs what
  reaches the page as an unhandled rejection: the rejection of a promise that nobody awaits
  or catches.
\<close>

record page =
  scanning :: bool
  result :: "CheckInResult option"
  manualCode :: jsstring
  loading :: bool
  selectedEvent :: jsstring
  cameraError :: "jsstring option"
  codeReaderRef :: "nat option"
  toasts :: "toast list"
  nextReader :: nat
  streams :: "(nat \<times> jsstring \<times> jsstring) list"
  resets :: "nat list"
  calls :: "api_call list"
  pending :: "(jsstring \<times> jsstring) list"
  unhandled :: "js_error list"

definition initial :: page where
  "initial =
     \<lparr>scanning = False, result = None, manualCode = [], loading = False,
      selectedEvent = [], cameraError = None, codeReaderRef = None, toasts = [],
      nextReader = 0, streams = [], resets = [], calls = [], pending = [],
      unhandled = []\<rparr>"

definition showError :: "jsstring \<Rightarrow> page \<Rightarrow> page" where
  "showError t s = s\<lparr>toasts := toasts s @ [Toast error_toast t]\<rparr>"

definition showSuccess :: "jsstring \<Rightarrow> page \<Rightarrow> page" where
  "showSuccess t s = s\<lparr>toasts := toasts s @ [Toast success_toast t]\<rparr>"

text \<open>
  The object literal \<^verbatim>\<open>{valid: false, message: m}\<close> that \<^verbatim>\<open>validateAndCheckIn\<close> passes
  to \<^verbatim>\<open>setResult\<close> on a failure.
\<close>

definition failure :: "jsstring \<Rightarrow> CheckInResult" where
  "failure m = \<lparr>valid = Some False, success = None, attendee = None, message = Some m\<rparr>"

subsection \<open>Validation and check-in\<close>

text \<open>
  \<^verbatim>\<open>validateAndCheckIn\<close> is an async function; it is cut where it first awaits.
  \<open>validateAndCheckIn_begin\<close> is what runs inside the caller: the guard, \<^verbatim>\<open>setLoading(true)\<close>
  and the sending of the validate request (\<open>None\<close> when the guard returns).
  \<open>event\<close> is the selected event that the closure holds.
\<close>

definition validateAndCheckIn_begin :: "jsstring \<Rightarrow> jsstring \<Rightarrow> page \<Rightarrow> page option" where
  "validateAndCheckIn_begin event code s =
     (if code = [] \<or> event = [] then None
      else Some (s\<lparr>loading := True, calls := calls s @ [GET (units ''/qr/validate/'' @ code)]\<rparr>))"

text \<open>
  The body of the \<^verbatim>\<open>try\<close> from the moment the validate request settles. The first
  component is the error thrown, if any, with the state reached at the throw.
\<close>

definition validateAndCheckIn_try ::
  "jsstring \<Rightarrow> jsstring \<Rightarrow> js_error + CheckInResult \<Rightarrow> js_error + CheckInResult \<Rightarrow> page
     \<Rightarrow> js_error option \<times> page" where
  "validateAndCheckIn_try event code validateOutcome checkInOutcome s =
     (case validateOutcome of
        Inl err \<Rightarrow> (Some err, s)
      | Inr validateResponse \<Rightarrow>
          (let invalid =
                 (None, showError (units ''Invalid QR code'')
                    (s\<lparr>result := Some (failure (or_else (message validateResponse) (units ''Invalid QR code'')))\<rparr>))
           in
           if \<not> truthy (valid validateResponse) \<or> attendee validateResponse = None then invalid
           else
             (case attendee validateResponse of
                None \<Rightarrow> invalid
              | Some a \<Rightarrow>
                  if eventId a \<noteq> event then
                    (None, showError (units ''Wrong event'')
                       (s\<lparr>result := Some (failure (units ''This QR code is for a different event''))\<rparr>))
                  else if truthy (alreadyCheckedIn a) then
                    (None, showError (units ''Already checked in'')
                       (s\<lparr>result := Some \<lparr>valid = Some True, success = None, attendee = Some a,
                                           message = Some (units ''Already checked in'')\<rparr>\<rparr>))
                  else
                    (let s1 = s\<lparr>calls := calls s @ [POST (units ''/qr/check-in/'' @ code)]\<rparr> in
                     case checkInOutcome of
                       Inl err \<Rightarrow> (Some err, s1)
                     | Inr checkInResponse \<Rightarrow>
                         if \<not> truthy (success checkInResponse) then
                           (None, showError (or_else (message checkInResponse) (units ''Check-in failed''))
                              (s1\<lparr>result := Some (failure (or_else (message checkInResponse) (units ''Check-in failed'')))\<rparr>))
                         else
                           (None, showSuccess (units ''Check-in successful!'')
                              (s1\<lparr>result := Some \<lparr>valid = Some True, success = None,
                                                   attendee = attendee checkInResponse,
                                                   message = None\<rparr>\<rparr>))))))"

text \<open>The rest of the function: the \<^verbatim>\<open>try\<close>, its \<^verbatim>\<open>catch\<close> and its \<^verbatim>\<open>finally\<close>.\<close>

definition validateAndCheckIn_resume ::
  "jsstring \<Rightarrow> jsstring \<Rightarrow> js_error + CheckInResult \<Rightarrow> js_error + CheckInResult \<Rightarrow> page
     \<Rightarrow> js_error option \<times> page" where
  "validateAndCheckIn_resume event code validateOutcome checkInOutcome s =
     (case validateAndCheckIn_try event code validateOutcome checkInOutcome s of
        (None, s1) \<Rightarrow> (None, s1\<lparr>loading := False\<rparr>)
      | (Some err, s1) \<Rightarrow>
          (let errorMsg = getErrorMessage err in
           (None, (showError errorMsg (s1\<lparr>result := Some (failure errorMsg)\<rparr>))\<lparr>loading := False\<rparr>)))"

text \<open>
  The whole call, run to its end: \<open>validate\<close> and \<open>checkIn\<close> are what the two
  exchanges with the server settle to. The first component of the value is what the
  returned promise rejects with (\<open>None\<close>: it resolves), the second the state of the page
  when it settles.
\<close>

definition validateAndCheckIn ::
  "jsstring \<Rightarrow> jsstring \<Rightarrow> CheckInResult fetch_outcome \<Rightarrow> CheckInResult fetch_outcome \<Rightarrow> page
     \<Rightarrow> js_error option \<times> page" where
  "validateAndCheckIn event code validate checkIn s =
     (case validateAndCheckIn_begin event code s of
        None \<Rightarrow> (None, s)
      | Some s1 \<Rightarrow> validateAndCheckIn_resume event code (request validate) (request checkIn) s1)"

text \<open>
  A call \<^verbatim>\<open>validateAndCheckIn(code)\<close> inside a handler, which does not await it: the
  function runs up to its first \<^verbatim>\<open>await\<close> and the rest is left pending.
\<close>

definition call_validateAndCheckIn :: "jsstring \<Rightarrow> jsstring \<Rightarrow> page \<Rightarrow> page" where
  "call_validateAndCheckIn event code s =
     (case validateAndCheckIn_begin event code s of
        None \<Rightarrow> s
      | Some s1 \<Rightarrow> s1\<lparr>pending := pending s1 @ [(event, code)]\<rparr>)"

text \<open>The server answers the oldest pending call, which then runs to its end.\<close>

definition settle :: "CheckInResult fetch_outcome \<Rightarrow> CheckInResult fetch_outcome \<Rightarrow> page \<Rightarrow> page" where
  "settle validate checkIn s =
     (case pending s of
        [] \<Rightarrow> s
      | (event, code) # rest \<Rightarrow>
          snd (validateAndCheckIn_resume event code (request validate) (request checkIn)
                 (s\<lparr>pending := rest\<rparr>)))"

subsection \<open>Manual entry\<close>

text \<open>\<^verbatim>\<open>handleManualSubmit\<close> and \<^verbatim>\<open>resetScanner\<close>.\<close>

definition handleManualSubmit :: "page \<Rightarrow> page" where
  "handleManualSubmit s =
     (if trim (manualCode s) \<noteq> [] then
        (call_validateAndCheckIn (selectedEvent s) (trim (manualCode s)) s)\<lparr>manualCode := []\<rparr>
      else s)"

definition resetScanner :: "page \<Rightarrow> page" where
  "resetScanner s = s\<lparr>result := None, manualCode := []\<rparr>"

subsection \<open>The camera\<close>

text \<open>
  The predicate that \<^verbatim>\<open>startScanning\<close> passes to \<^verbatim>\<open>find\<close>; \<open>unicode\<close> is the case
  mapping that \<open>toLowerCase\<close> takes.
\<close>

definition isBackCamera :: "(jsstring \<Rightarrow> nat \<Rightarrow> jsstring) \<Rightarrow> device \<Rightarrow> bool" where
  "isBackCamera unicode d =
     (str_includes (toLowerCase unicode (label d)) (units ''back'') \<or>
      str_includes (toLowerCase unicode (label d)) (units ''environment'') \<or>
      str_includes (toLowerCase unicode (label d)) (units ''rear''))"

text \<open>
  The choice of the device in \<^verbatim>\<open>startScanning\<close>; \<open>None\<close> is the early return on an
  empty list.
\<close>

definition selectedDeviceId ::
  "(jsstring \<Rightarrow> nat \<Rightarrow> jsstring) \<Rightarrow> device list \<Rightarrow> jsstring option" where
  "selectedDeviceId unicode videoInputDevices =
     (if length videoInputDevices = 0 then None
      else
        (case find (isBackCamera unicode) videoInputDevices of
           Some backCamera \<Rightarrow> Some (deviceId backCamera)
         | None \<Rightarrow>
             if length videoInputDevices > 1 then
               Some (deviceId (videoInputDevices ! (length videoInputDevices - 1)))
             else Some (deviceId (videoInputDevices ! 0))))"

text \<open>\<^verbatim>\<open>reset()\<close> on a reader closes its subscriptions.\<close>

definition reset :: "nat \<Rightarrow> page \<Rightarrow> page" where
  "reset r s =
     s\<lparr>streams := filter (\<lambda>(r', dev, event). r' \<noteq> r) (streams s), resets := resets s @ [r]\<rparr>"

definition stopScanning :: "page \<Rightarrow> page" where
  "stopScanning s =
     (case codeReaderRef s of
        None \<Rightarrow> s
      | Some codeReader \<Rightarrow> (reset codeReader s)\<lparr>codeReaderRef := None\<rparr>)"

text \<open>
  The callback given to \<^verbatim>\<open>decodeFromVideoDevice\<close>. \<open>resultText\<close> is the text of the
  result, \<open>None\<close> when the callback is called without one; the logging of the error
  argument changes nothing and is left out.
\<close>

definition decodeCallback :: "jsstring \<Rightarrow> jsstring option \<Rightarrow> page \<Rightarrow> page" where
  "decodeCallback event resultText s =
     (case resultText of
        None \<Rightarrow> s
      | Some qrCode \<Rightarrow>
          if qrCode \<noteq> [] then call_validateAndCheckIn event qrCode (s\<lparr>scanning := False\<rparr>)
          else s)"

text \<open>
  What the call \<^verbatim>\<open>codeReader.decodeFromVideoDevice(...)\<close> does: it opens the stream and
  decodes; or it throws, inside the \<^verbatim>\<open>try\<close>; or the promise it returns rejects later
  (the camera is refused, for one). \<^verbatim>\<open>startScanning\<close> does not await that promise.
\<close>

datatype decode_outcome = Decoding | Throws js_error | RejectsLater js_error

text \<open>
  \<^verbatim>\<open>startScanning\<close>. \<open>devices\<close> is what \<^verbatim>\<open>listVideoInputDevices()\<close> settles to,
  \<open>videoRefCurrent\<close> tells whether the video element is mounted, and \<open>decode\<close> is what
  the call of \<^verbatim>\<open>decodeFromVideoDevice\<close> does. Opening the stream records the subscription
  with the selected event of the render that started it. \<open>catch\<close> is the \<^verbatim>\<open>catch\<close>
  block: when reading \<^verbatim>\<open>err.message\<close> throws, the block is left before it has set
  anything, and the promise of \<^verbatim>\<open>startScanning\<close>, which the effect does not await,
  rejects. A later rejection of the promise of \<^verbatim>\<open>decodeFromVideoDevice\<close> is outside the
  \<^verbatim>\<open>try\<close> and is unhandled as well.
\<close>

definition startScanning ::
  "(jsstring \<Rightarrow> nat \<Rightarrow> jsstring) \<Rightarrow> js_error + device list \<Rightarrow> bool \<Rightarrow> decode_outcome \<Rightarrow> page
     \<Rightarrow> page" where
  "startScanning unicode devices videoRefCurrent decode s =
     (let codeReader = nextReader s;
          s1 = s\<lparr>cameraError := None, codeReaderRef := Some codeReader,
                 nextReader := Suc codeReader\<rparr>;
          catch =
            (\<lambda>err. case error_message err of
                     Inl typeError \<Rightarrow> s1\<lparr>unhandled := unhandled s1 @ [typeError]\<rparr>
                   | Inr m \<Rightarrow>
                       showError (units ''Camera access denied'')
                         (s1\<lparr>cameraError := Some (or_else m (units ''Failed to access camera'')),
                             scanning := False\<rparr>))
      in case devices of
           Inl err \<Rightarrow> catch err
         | Inr videoInputDevices \<Rightarrow>
             (case selectedDeviceId unicode videoInputDevices of
                None \<Rightarrow> s1\<lparr>cameraError := Some (units ''No camera found''), scanning := False\<rparr>
              | Some dev \<Rightarrow>
                  if videoRefCurrent then
                    (case decode of
                       Decoding \<Rightarrow>
                         s1\<lparr>streams := streams s1 @ [(codeReader, dev, selectedEvent s1)]\<rparr>
                     | Throws err \<Rightarrow> catch err
                     | RejectsLater err \<Rightarrow> s1\<lparr>unhandled := unhandled s1 @ [err]\<rparr>)
                  else s1))"

text \<open>
  The effect on \<open>scanning\<close>, which React runs after a render in which \<open>scanning\<close>
  has changed.
\<close>

definition scanningEffect ::
  "(jsstring \<Rightarrow> nat \<Rightarrow> jsstring) \<Rightarrow> js_error + device list \<Rightarrow> bool \<Rightarrow> decode_outcome \<Rightarrow> page
     \<Rightarrow> page" where
  "scanningEffect unicode devices videoRefCurrent decode s =
     (if scanning s then startScanning unicode devices videoRefCurrent decode s
      else stopScanning s)"

text \<open>
  A reader decodes a frame and calls its callback. A reader that was reset has no
  subscription left and calls nothing.
\<close>

definition deliver :: "nat \<Rightarrow> jsstring option \<Rightarrow> page \<Rightarrow> page" where
  "deliver r resultText s =
     (case find (\<lambda>(r', dev, event). r' = r) (streams s) of
        None \<Rightarrow> s
      | Some (r', dev, event) \<Rightarrow> decodeCallback event resultText s)"

subsection \<open>Example data\<close>

text \<open>An ok JSON response with the given body.\<close>

definition json_ok :: "'a \<Rightarrow> 'a fetch_outcome" where
  "json_ok x =
     Resolves \<lparr>status = 200, statusText = units ''OK'', isJson = True, errorData = None,
               json = Inr x, textBody = x\<rparr>"

text \<open>A guest of event E1 who has not been checked in, and one of event E2 who has.\<close>

definition guest :: Attendee where
  "guest =
     \<lparr>attendee_id = units ''A1'', name = units ''Ada'', company = units ''ACME'', title = units ''Engineer'',
      email = units ''ada@example.org'', attendee_status = CONFIRMED, registrationId = units ''R1'',
      eventId = units ''E1'', checkedInAt = None, plusOne = None, alreadyCheckedIn = Some False\<rparr>"

definition returningGuest :: Attendee where
  "returningGuest = guest\<lparr>eventId := units ''E2'', alreadyCheckedIn := Some True\<rparr>"

text \<open>The validate response that recognises an attendee, and the commit response.\<close>

definition recognised :: "Attendee \<Rightarrow> CheckInResult fetch_outcome" where
  "recognised a =
     json_ok \<lparr>valid = Some True, success = None, attendee = Some a, message = None\<rparr>"

definition checkedIn :: "Attendee \<Rightarrow> CheckInResult fetch_outcome" where
  "checkedIn a =
     json_ok \<lparr>valid = None, success = Some True,
              attendee = Some (a\<lparr>checkedInAt := Some (units ''2024-01-01T10:00:00Z'')\<rparr>),
              message = None\<rparr>"

definition frontCamera :: device where
  "frontCamera = \<lparr>deviceId = units ''d-front'', label = units ''Front Camera''\<rparr>"

definition backCamera :: device where
  "backCamera = \<lparr>deviceId = units ''d-back'', label = units ''Back Camera''\<rparr>"

definition camera0 :: device where
  "camera0 = \<lparr>deviceId = units ''d0'', label = units ''Camera 0''\<rparr>"

definition camera1 :: device where
  "camera1 = \<lparr>deviceId = units ''d1'', label = units ''Camera 1''\<rparr>"

definition unlabelled :: device where
  "unlabelled = \<lparr>deviceId = units ''d-only'', label = []\<rparr>"

text \<open>
  A camera labelled in capitals, and one whose label ends with the Kelvin sign U+212A, which
  the Unicode tables lower to the letter k.
\<close>

definition capitalsCamera :: device where
  "capitalsCamera = \<lparr>deviceId = units ''d-caps'', label = units ''REAR CAMERA''\<rparr>"

definition kelvinCamera :: device where
  "kelvinCamera = \<lparr>deviceId = units ''d-kelvin'', label = units ''BAC'' @ [0x212A]\<rparr>"

text \<open>
  Every code unit that \<^verbatim>\<open>trim\<close> removes, in one string.
\<close>

definition allWhiteSpace :: jsstring where
  "allWhiteSpace =
       [0x0009, 0x000A, 0x000B, 0x000C, 0x000D, 0x0020, 0x00A0, 0x1680, 0x2000, 0x2001,
        0x2002, 0x2003, 0x2004, 0x2005, 0x2006, 0x2007, 0x2008, 0x2009, 0x200A, 0x2028,
        0x2029, 0x202F, 0x205F, 0x3000, 0xFEFF]"

text \<open>
  A case mapping for the examples: the Kelvin sign becomes k, and every other unit outside
  ASCII stays.
\<close>

definition kelvinMapping :: "jsstring \<Rightarrow> nat \<Rightarrow> jsstring" where
  "kelvinMapping s i = (if s ! i = 0x212A then [0x6B] else [s ! i])"

text \<open>
  The page with event E1 selected, and the same page once "Start Scanning" was clicked and
  the effect has opened the back camera.
\<close>

definition desk :: page where
  "desk = initial\<lparr>selectedEvent := units ''E1''\<rparr>"

definition scanningPage :: page where
  "scanningPage =
     scanningEffect kelvinMapping (Inr [frontCamera, backCamera]) True Decoding
       (desk\<lparr>scanning := True\<rparr>)"

section \<open>Properties\<close>

subsection \<open>Auxiliary facts\<close>

text \<open>Literals: \<open>units\<close> is one-to-one and goes through concatenation.\<close>

lemma units_inject [simp]: "units a = units b \<longleftrightarrow> a = b"
  by (simp add: units_def inj_map_eq_map inj_on_def)

lemma units_empty [simp]: "units [] = []" "units a = [] \<longleftrightarrow> a = []"
  by (simp_all add: units_def)

lemma units_append [simp]: "units a @ units b = units (a @ b)"
  by (simp add: units_def)

lemmas validate_defs =
  validateAndCheckIn_def validateAndCheckIn_begin_def validateAndCheckIn_resume_def
  validateAndCheckIn_try_def showError_def showSuccess_def truthy_def failure_def

lemmas camera_defs =
  selectedDeviceId_def isBackCamera_def toLowerCase_def toLowerCase_ascii_def units_def
  upt_rec_numeral frontCamera_def backCamera_def camera0_def camera1_def unlabelled_def
  capitalsCamera_def kelvinCamera_def kelvinMapping_def

lemma request_json_ok: "request (json_ok x) = Inr x"
  by (simp add: request_def json_ok_def handleResponse_def ok_def)

text \<open>A 404 without and with a JSON body, as \<^verbatim>\<open>request\<close> throws it.\<close>

lemma request_not_found:
  "request (Resolves \<lparr>status = 404, statusText = units ''Not Found'', isJson = False,
                        errorData = None, json = Inr x, textBody = x\<rparr>) =
     Inl (APIError 404 (units ''HTTP 404: Not Found''))"
  by (simp add: request_def handleResponse_def ok_def showNat.simps units_def)

lemma request_not_found_json:
  "request (Resolves \<lparr>status = 404, statusText = units ''Not Found'', isJson = True,
                        errorData = Some (Some (units ''QR code not found'')), json = Inr x,
                        textBody = x\<rparr>) =
     Inl (APIError 404 (units ''QR code not found''))"
  by (simp add: request_def handleResponse_def ok_def showNat.simps or_else_def)

lemma request_recognised:
  "request (recognised a) =
     Inr \<lparr>valid = Some True, success = None, attendee = Some a, message = None\<rparr>"
  by (simp add: recognised_def request_json_ok)

lemma request_checkedIn:
  "request (checkedIn a) =
     Inr \<lparr>valid = None, success = Some True,
          attendee = Some (a\<lparr>checkedInAt := Some (units ''2024-01-01T10:00:00Z'')\<rparr>),
          message = None\<rparr>"
  by (simp add: checkedIn_def request_json_ok)

lemma scanningPage_eq:
  "scanningPage =
     initial\<lparr>selectedEvent := units ''E1'', scanning := True, codeReaderRef := Some 0,
             nextReader := 1, streams := [(0, units ''d-back'', units ''E1'')]\<rparr>"
  by (simp add: scanningPage_def desk_def scanningEffect_def startScanning_def initial_def
      camera_defs)

lemma str_includes_iff: "str_includes s sub \<longleftrightarrow> (\<exists>p q. s = p @ sub @ q)"
  by (induction s) (auto simp: prefix_def Cons_eq_append_conv)

lemma all_dropWhile: "(\<forall>x\<in>set (dropWhile P s). P x) \<longleftrightarrow> (\<forall>x\<in>set s. P x)"
  by (induction s) auto

lemma trim_blank: "trim s = [] \<longleftrightarrow> (\<forall>c\<in>set s. isWhiteSpace c)"
  by (simp add: trim_def all_dropWhile)

text \<open>
  The rest of \<^verbatim>\<open>validateAndCheckIn\<close> touches neither \<open>manualCode\<close> nor
  \<open>scanning\<close> nor \<open>pending\<close>.
\<close>

lemma try_manualCode:
  "validateAndCheckIn_try e c vo co (s\<lparr>manualCode := m\<rparr>) =
     (fst (validateAndCheckIn_try e c vo co s),
      (snd (validateAndCheckIn_try e c vo co s))\<lparr>manualCode := m\<rparr>)"
  by (simp add: validateAndCheckIn_try_def showError_def showSuccess_def Let_def
      split: sum.splits option.splits)

lemma try_scanning:
  "validateAndCheckIn_try e c vo co (s\<lparr>scanning := b\<rparr>) =
     (fst (validateAndCheckIn_try e c vo co s),
      (snd (validateAndCheckIn_try e c vo co s))\<lparr>scanning := b\<rparr>)"
  by (simp add: validateAndCheckIn_try_def showError_def showSuccess_def Let_def
      split: sum.splits option.splits)

lemma try_pending:
  "validateAndCheckIn_try e c vo co (s\<lparr>pending := p\<rparr>) =
     (fst (validateAndCheckIn_try e c vo co s),
      (snd (validateAndCheckIn_try e c vo co s))\<lparr>pending := p\<rparr>)"
  by (simp add: validateAndCheckIn_try_def showError_def showSuccess_def Let_def
      split: sum.splits option.splits)

lemma resume_manualCode:
  "snd (validateAndCheckIn_resume e c vo co (s\<lparr>manualCode := m\<rparr>)) =
     (snd (validateAndCheckIn_resume e c vo co s))\<lparr>manualCode := m\<rparr>"
  by (simp add: validateAndCheckIn_resume_def try_manualCode showError_def Let_def
      split: prod.splits option.splits)

lemma resume_scanning:
  "snd (validateAndCheckIn_resume e c vo co (s\<lparr>scanning := b\<rparr>)) =
     (snd (validateAndCheckIn_resume e c vo co s))\<lparr>scanning := b\<rparr>"
  by (simp add: validateAndCheckIn_resume_def try_scanning showError_def Let_def
      split: prod.splits option.splits)

lemma resume_pending:
  "snd (validateAndCheckIn_resume e c vo co (s\<lparr>pending := p\<rparr>)) =
     (snd (validateAndCheckIn_resume e c vo co s))\<lparr>pending := p\<rparr>"
  by (simp add: validateAndCheckIn_resume_def try_pending showError_def Let_def
      split: prod.splits option.splits)

lemma try_keeps_pending: "pending (snd (validateAndCheckIn_try e c vo co s)) = pending s"
  by (simp add: validateAndCheckIn_try_def showError_def showSuccess_def Let_def
      split: sum.splits option.splits)

lemma resume_keeps_pending: "pending (snd (validateAndCheckIn_resume e c vo co s)) = pending s"
  using try_keeps_pending[of e c vo co s]
  by (auto simp add: validateAndCheckIn_resume_def showError_def Let_def
      split: prod.splits option.splits)

lemma resume_scanning_begun:
  "snd (validateAndCheckIn_resume e c vo co (s\<lparr>scanning := b, loading := l, calls := cs\<rparr>)) =
     (snd (validateAndCheckIn_resume e c vo co (s\<lparr>loading := l, calls := cs\<rparr>)))\<lparr>scanning := b\<rparr>"
proof -
  have "s\<lparr>scanning := b, loading := l, calls := cs\<rparr> =
        (s\<lparr>loading := l, calls := cs\<rparr>)\<lparr>scanning := b\<rparr>"
    by simp
  then show ?thesis
    by (simp only: resume_scanning)
qed

lemma resume_never_rejects: "fst (validateAndCheckIn_resume e c vo co s) = None"
  by (simp add: validateAndCheckIn_resume_def Let_def split: prod.splits option.splits)

text \<open>
  On a string of ASCII the case mapping of the engine plays no part, and a lower-case word
  is found in the lowered string when the string holds the word up to the case of each
  letter: each unit is the letter itself, or the capital that lies 0x20 below it.
\<close>

lemma toLowerCase_ascii_only:
  assumes "\<forall>c\<in>set s. c < 0x80"
  shows "toLowerCase unicode s = map toLowerCase_ascii s"
proof -
  have "map (\<lambda>i. if s ! i < 0x80 then [toLowerCase_ascii (s ! i)] else unicode s i) [0..<length s]
        = map (\<lambda>i. [toLowerCase_ascii (s ! i)]) [0..<length s]"
    using assms by (intro map_cong) auto
  also have "concat \<dots> = map (\<lambda>i. toLowerCase_ascii (s ! i)) [0..<length s]"
    by (induction "[0..<length s]") (simp_all add: concat_map_singleton)
  also have "\<dots> = map toLowerCase_ascii (map ((!) s) [0..<length s])"
    by simp
  also have "\<dots> = map toLowerCase_ascii s"
    by (simp only: map_nth)
  finally show ?thesis
    by (simp add: toLowerCase_def)
qed

lemma includes_map:
  "(\<exists>p q. map f s = p @ w @ q) \<longleftrightarrow> (\<exists>p m q. s = p @ m @ q \<and> map f m = w)"
proof
  assume "\<exists>p q. map f s = p @ w @ q"
  then obtain p q where "map f s = p @ w @ q" by blast
  then have "\<exists>us vs. s = us @ vs \<and> p = map f us \<and> w @ q = map f vs"
    by (simp add: map_eq_append_conv)
  then obtain p' r where r: "s = p' @ r" "w @ q = map f r"
    by blast
  then have "\<exists>us vs. r = us @ vs \<and> w = map f us \<and> q = map f vs"
    by (simp add: append_eq_map_conv)
  then obtain m q' where "r = m @ q'" "map f m = w"
    by blast
  with r show "\<exists>p m q. s = p @ m @ q \<and> map f m = w" by blast
next
  assume "\<exists>p m q. s = p @ m @ q \<and> map f m = w"
  then obtain p m q where "s = p @ m @ q" "map f m = w" by blast
  then have "map f s = map f p @ w @ map f q" by simp
  then show "\<exists>p q. map f s = p @ w @ q" by blast
qed

lemma lowered_run:
  assumes "\<forall>y\<in>set w. 0x61 \<le> y \<and> y \<le> 0x7A"
  shows "map toLowerCase_ascii m = w \<longleftrightarrow> list_all2 (\<lambda>x y. x = y \<or> x + 0x20 = y) m w"
proof -
  have "map toLowerCase_ascii m = w \<longleftrightarrow> list_all2 (\<lambda>x y. toLowerCase_ascii x = y) m w"
    by (simp add: list_all2_conv_all_nth list_eq_iff_nth_eq)
  also have "\<dots> \<longleftrightarrow> list_all2 (\<lambda>x y. x = y \<or> x + 0x20 = y) m w"
    unfolding list_all2_conv_all_nth
  proof (intro conj_cong refl all_cong imp_cong)
    fix i assume "length m = length w" "i < length m"
    then have "w ! i \<in> set w" by simp
    with assms have "0x61 \<le> w ! i \<and> w ! i \<le> 0x7A" by blast
    then show "(toLowerCase_ascii (m ! i) = w ! i) = (m ! i = w ! i \<or> m ! i + 0x20 = w ! i)"
      by (auto simp: toLowerCase_ascii_def)
  qed
  finally show ?thesis .
qed

lemma words_lower:
  "\<forall>y\<in>set (units ''back''). 0x61 \<le> y \<and> y \<le> 0x7A"
  "\<forall>y\<in>set (units ''environment''). 0x61 \<le> y \<and> y \<le> 0x7A"
  "\<forall>y\<in>set (units ''rear''). 0x61 \<le> y \<and> y \<le> 0x7A"
  by (simp_all add: units_def)

lemma isBackCamera_ascii:
  assumes "\<forall>c\<in>set (label d). c < 0x80"
  shows "isBackCamera unicode d \<longleftrightarrow>
      (\<exists>p m q. label d = p @ m @ q \<and>
         (list_all2 (\<lambda>x y. x = y \<or> x + 0x20 = y) m (units ''back'') \<or>
          list_all2 (\<lambda>x y. x = y \<or> x + 0x20 = y) m (units ''environment'') \<or>
          list_all2 (\<lambda>x y. x = y \<or> x + 0x20 = y) m (units ''rear'')))"
  unfolding isBackCamera_def toLowerCase_ascii_only[OF assms] str_includes_iff includes_map
    lowered_run[OF words_lower(1), symmetric] lowered_run[OF words_lower(2), symmetric]
    lowered_run[OF words_lower(3), symmetric]
  by blast

text \<open>
  The text \<^verbatim>\<open>getErrorMessage\<close> gives: the message of the error, but a fixed text for
  the statuses 403, 404 and 500, and a default when the message is empty.
\<close>

lemma getErrorMessage_text:
  "getErrorMessage (Error m) = m"
  "m \<noteq> [] \<Longrightarrow> statusCode \<notin> {403, 404, 500} \<Longrightarrow> getErrorMessage (APIError statusCode m) = m"
  "getErrorMessage (APIError 403 m) = units ''You don't have permission to perform this action.''"
  "getErrorMessage (APIError 404 m) = units ''Resource not found.''"
  "getErrorMessage (APIError 500 m) = units ''Server error. Please try again later.''"
  by (simp_all add: or_else_def)

text \<open>
  A rejection of \<^verbatim>\<open>fetch\<close> that is not an \<^verbatim>\<open>APIError\<close> is thrown on as the network
  error with status 0, whose text is shown as it is.
\<close>

lemma request_network_error:
  "\<forall>statusCode m. thrown \<noteq> APIError statusCode m \<Longrightarrow>
     request (Rejects thrown) =
       Inl (APIError 0 (units ''Network error. Please check your connection.''))"
  "getErrorMessage (APIError 0 (units ''Network error. Please check your connection.'')) =
     units ''Network error. Please check your connection.''"
  by (cases thrown; simp add: request_def or_else_def)+

text \<open>
  An error thrown by the validate request, or by the commit request, is caught: the result
  is the failure with the text of \<^verbatim>\<open>getErrorMessage\<close>, shown in a toast too, and the
  promise of \<^verbatim>\<open>validateAndCheckIn\<close> does not reject.
\<close>

lemma validate_error_caught:
  assumes "code \<noteq> []" and "event \<noteq> []" and "request validate = Inl err"
  shows "validateAndCheckIn event code validate checkIn s =
           (None, s\<lparr>loading := False,
                     result := Some (failure (getErrorMessage err)),
                     toasts := toasts s @ [Toast error_toast (getErrorMessage err)],
                     calls := calls s @ [GET (units ''/qr/validate/'' @ code)]\<rparr>)"
  using assms by (simp add: validate_defs Let_def)

lemma commit_error_caught:
  assumes "code \<noteq> []" and "event \<noteq> []"
    and "request validate = Inr validateResponse"
    and "valid validateResponse = Some True"
    and "attendee validateResponse = Some a"
    and "eventId a = event"
    and "alreadyCheckedIn a \<noteq> Some True"
    and "request checkIn = Inl err"
  shows "validateAndCheckIn event code validate checkIn s =
           (None, s\<lparr>loading := False,
                     result := Some (failure (getErrorMessage err)),
                     toasts := toasts s @ [Toast error_toast (getErrorMessage err)],
                     calls := calls s @ [GET (units ''/qr/validate/'' @ code),
                                         POST (units ''/qr/check-in/'' @ code)]\<rparr>)"
  using assms by (simp add: validate_defs Let_def)

lemma validateAndCheckIn_never_rejects:
  "fst (validateAndCheckIn event code validate checkIn s) = None"
  by (simp add: validateAndCheckIn_def resume_never_rejects split: option.splits)

subsection \<open>C1: one validation per scan\<close>

text \<open>
  Claim C1 says that decode callbacks which arrive before the first validation has
  completed start a single validate and commit pair, because the controller stops
  accepting decodes at once. The callback only calls \<^verbatim>\<open>setScanning(false)\<close>; the reader is
  reset by the effect on \<open>scanning\<close>, which runs after the next render. On the scanning
  page, a callback leaves the subscription open; two callbacks with the code QR123 before
  the effect runs send two validate requests, and once both are answered two commit
  requests. Only after the effect has run does a further decode call nothing.
\<close>

theorem double_decode_validates_twice:
  "streams (deliver 0 (Some (units ''QR123'')) scanningPage) = streams scanningPage \<and>
   calls (deliver 0 (Some (units ''QR123'')) (deliver 0 (Some (units ''QR123'')) scanningPage)) =
     [GET (units ''/qr/validate/QR123''), GET (units ''/qr/validate/QR123'')] \<and>
   calls (settle (recognised guest) (checkedIn guest)
           (settle (recognised guest) (checkedIn guest)
             (deliver 0 (Some (units ''QR123'')) (deliver 0 (Some (units ''QR123'')) scanningPage)))) =
     [GET (units ''/qr/validate/QR123''), GET (units ''/qr/validate/QR123''),
      POST (units ''/qr/check-in/QR123''), POST (units ''/qr/check-in/QR123'')] \<and>
   calls (deliver 0 (Some (units ''QR123''))
           (scanningEffect kelvinMapping (Inr [frontCamera, backCamera]) True Decoding
             (deliver 0 (Some (units ''QR123'')) scanningPage))) =
     [GET (units ''/qr/validate/QR123'')]"
  by (simp add: scanningPage_eq initial_def deliver_def decodeCallback_def
      call_validateAndCheckIn_def settle_def validate_defs request_recognised request_checkedIn
      guest_def scanningEffect_def stopScanning_def reset_def)

subsection \<open>C2: the event-match guard\<close>

text \<open>
  Claim C2: when the validate response recognises an attendee whose \<open>eventId\<close> differs
  from the selected event of the session, the attempt ends with the wrong-event result (not
  valid, message "This QR code is for a different event", toast "Wrong event") and the only
  request sent is the validate request: no commit call is issued.
\<close>

theorem wrong_event_no_commit:
  assumes "code \<noteq> []" and "event \<noteq> []"
    and "request validate = Inr validateResponse"
    and "valid validateResponse = Some True"
    and "attendee validateResponse = Some a"
    and "eventId a \<noteq> event"
  shows "validateAndCheckIn event code validate checkIn s =
           (None, s\<lparr>loading := False,
                     result := Some (failure (units ''This QR code is for a different event'')),
                     toasts := toasts s @ [Toast error_toast (units ''Wrong event'')],
                     calls := calls s @ [GET (units ''/qr/validate/'' @ code)]\<rparr>)"
  using assms by (simp add: validate_defs)

text \<open>The guest of event E2 scanned at the desk of event E1.\<close>

theorem wrong_event_no_commit_witness:
  "eventId returningGuest \<noteq> units ''E1'' \<and>
   validateAndCheckIn (units ''E1'') (units ''QR123'') (recognised returningGuest) (checkedIn returningGuest) desk =
     (None, desk\<lparr>result := Some (failure (units ''This QR code is for a different event'')),
                  toasts := [Toast error_toast (units ''Wrong event'')],
                  calls := [GET (units ''/qr/validate/QR123'')]\<rparr>)"
proof -
  have e: "eventId returningGuest \<noteq> units ''E1''"
    by (simp add: returningGuest_def)
  show ?thesis
    using e wrong_event_no_commit [of "units ''QR123''" "units ''E1''" "recognised returningGuest" _
        returningGuest "checkedIn returningGuest" desk, OF _ _ request_recognised]
    by (simp add: desk_def initial_def)
qed

subsection \<open>C3: the happy path\<close>

text \<open>
  Claim C3: when the validate response is valid, its attendee belongs to the selected event
  and is not marked as already checked in, the commit request is sent exactly once, after
  the validate request; and when the commit response reports success, the result is the
  valid result that carries the attendee of the commit response, with the success toast.
\<close>

theorem happy_path_commits_once:
  assumes "code \<noteq> []" and "event \<noteq> []"
    and "request validate = Inr validateResponse"
    and "valid validateResponse = Some True"
    and "attendee validateResponse = Some a"
    and "eventId a = event"
    and "alreadyCheckedIn a \<noteq> Some True"
  shows "calls (snd (validateAndCheckIn event code validate checkIn s)) =
           calls s @ [GET (units ''/qr/validate/'' @ code), POST (units ''/qr/check-in/'' @ code)] \<and>
         (\<forall>checkInResponse.
            request checkIn = Inr checkInResponse \<and> success checkInResponse = Some True \<longrightarrow>
            validateAndCheckIn event code validate checkIn s =
              (None, s\<lparr>loading := False,
                        result := Some \<lparr>valid = Some True, success = None,
                                         attendee = attendee checkInResponse, message = None\<rparr>,
                        toasts := toasts s @ [Toast success_toast (units ''Check-in successful!'')],
                        calls := calls s @ [GET (units ''/qr/validate/'' @ code),
                                            POST (units ''/qr/check-in/'' @ code)]\<rparr>))"
  using assms by (auto simp add: validate_defs Let_def split: option.splits sum.splits)

text \<open>
  The scenario of the specification: event E1, code QR123, the commit response carries
  the time of the check-in.
\<close>

theorem happy_path_commits_once_witness:
  "alreadyCheckedIn guest \<noteq> Some True \<and>
   validateAndCheckIn (units ''E1'') (units ''QR123'') (recognised guest) (checkedIn guest) desk =
     (None, desk\<lparr>result := Some \<lparr>valid = Some True, success = None,
                     attendee = Some (guest\<lparr>checkedInAt := Some (units ''2024-01-01T10:00:00Z'')\<rparr>),
                     message = None\<rparr>,
                  toasts := [Toast success_toast (units ''Check-in successful!'')],
                  calls := [GET (units ''/qr/validate/QR123''), POST (units ''/qr/check-in/QR123'')]\<rparr>)"
proof -
  have a: "alreadyCheckedIn guest \<noteq> Some True" and e: "eventId guest = units ''E1''"
    by (simp_all add: guest_def)
  show ?thesis
    using a happy_path_commits_once [of "units ''QR123''" "units ''E1''" "recognised guest" _ guest
        "checkedIn guest" desk, OF _ _ request_recognised _ _ e a] request_checkedIn [of guest]
    by (simp add: desk_def initial_def)
qed

subsection \<open>C4: the already-checked-in guard\<close>

text \<open>
  Claim C4, as amended: when the validate response recognises an attendee who belongs to
  the selected event and is marked \<open>alreadyCheckedIn\<close>, the attempt ends with the
  "Already checked in" result, which carries the attendee of the validate response, and no
  commit call is issued. The claim as stated leaves out that the attendee belongs to the
  selected event; the event-match guard comes first.
\<close>

theorem already_checked_in_no_commit:
  assumes "code \<noteq> []" and "event \<noteq> []"
    and "request validate = Inr validateResponse"
    and "valid validateResponse = Some True"
    and "attendee validateResponse = Some a"
    and "eventId a = event"
    and "alreadyCheckedIn a = Some True"
  shows "validateAndCheckIn event code validate checkIn s =
           (None, s\<lparr>loading := False,
                     result := Some \<lparr>valid = Some True, success = None, attendee = Some a,
                                      message = Some (units ''Already checked in'')\<rparr>,
                     toasts := toasts s @ [Toast error_toast (units ''Already checked in'')],
                     calls := calls s @ [GET (units ''/qr/validate/'' @ code)]\<rparr>)"
  using assms by (simp add: validate_defs)

text \<open>The returning guest of event E2 scanned at the desk of event E2.\<close>

theorem already_checked_in_no_commit_witness:
  "alreadyCheckedIn returningGuest = Some True \<and>
   validateAndCheckIn (units ''E2'') (units ''QR123'') (recognised returningGuest) (checkedIn returningGuest) desk =
     (None, desk\<lparr>result := Some \<lparr>valid = Some True, success = None,
                                   attendee = Some returningGuest,
                                   message = Some (units ''Already checked in'')\<rparr>,
                  toasts := [Toast error_toast (units ''Already checked in'')],
                  calls := [GET (units ''/qr/validate/QR123'')]\<rparr>)"
proof -
  have a: "alreadyCheckedIn returningGuest = Some True" and e: "eventId returningGuest = units ''E2''"
    by (simp_all add: returningGuest_def)
  show ?thesis
    using a already_checked_in_no_commit [of "units ''QR123''" "units ''E2''" "recognised returningGuest" _
        returningGuest "checkedIn returningGuest" desk, OF _ _ request_recognised _ _ e a]
    by (simp add: desk_def initial_def)
qed

text \<open>
  Against C4 as stated: the returning guest is marked \<open>alreadyCheckedIn\<close> and belongs
  to event E2. Scanned for event E1, the result is the wrong-event result, without the
  attendee.
\<close>

theorem already_checked_in_other_event_counterexample:
  "valid \<lparr>valid = Some True, success = None, attendee = Some returningGuest, message = None\<rparr> = Some True \<and>
   alreadyCheckedIn returningGuest = Some True \<and>
   validateAndCheckIn (units ''E1'') (units ''QR123'') (recognised returningGuest) (checkedIn returningGuest) desk =
     (None, desk\<lparr>result := Some \<lparr>valid = Some False, success = None, attendee = None,
                     message = Some (units ''This QR code is for a different event'')\<rparr>,
                  toasts := [Toast error_toast (units ''Wrong event'')],
                  calls := [GET (units ''/qr/validate/QR123'')]\<rparr>)"
  by (simp add: validate_defs request_recognised returningGuest_def guest_def desk_def initial_def)

subsection \<open>C5: the invalid-code branch\<close>

text \<open>
  Claim C5: when the validate response is not valid or has no attendee, the attempt ends
  with the invalid result (not valid, with the message of the response or "Invalid QR code",
  and the toast "Invalid QR code"), loading is over, and no commit call is issued.
\<close>

theorem invalid_code_no_commit:
  assumes "code \<noteq> []" and "event \<noteq> []"
    and "request validate = Inr validateResponse"
    and "valid validateResponse \<noteq> Some True \<or> attendee validateResponse = None"
  shows "validateAndCheckIn event code validate checkIn s =
           (None, s\<lparr>loading := False,
                     result := Some (failure (or_else (message validateResponse) (units ''Invalid QR code''))),
                     toasts := toasts s @ [Toast error_toast (units ''Invalid QR code'')],
                     calls := calls s @ [GET (units ''/qr/validate/'' @ code)]\<rparr>)"
  using assms by (auto simp add: validate_defs Let_def split: option.splits)

text \<open>A response that is not valid, and a valid one without an attendee.\<close>

theorem invalid_code_no_commit_witness:
  "validateAndCheckIn (units ''E1'') (units ''NOPE'') (json_ok (failure (units ''QR code not found''))) (checkedIn guest) desk =
     (None, desk\<lparr>result := Some (failure (units ''QR code not found'')),
                  toasts := [Toast error_toast (units ''Invalid QR code'')],
                  calls := [GET (units ''/qr/validate/NOPE'')]\<rparr>) \<and>
   validateAndCheckIn (units ''E1'') (units ''NOPE'')
       (json_ok \<lparr>valid = Some True, success = None, attendee = None, message = None\<rparr>)
       (checkedIn guest) desk =
     (None, desk\<lparr>result := Some (failure (units ''Invalid QR code'')),
                  toasts := [Toast error_toast (units ''Invalid QR code'')],
                  calls := [GET (units ''/qr/validate/NOPE'')]\<rparr>)"
  using invalid_code_no_commit [of "units ''NOPE''" "units ''E1''" "json_ok (failure (units ''QR code not found''))"
      "failure (units ''QR code not found'')" "checkedIn guest" desk, OF _ _ request_json_ok]
    invalid_code_no_commit [of "units ''NOPE''" "units ''E1''"
      "json_ok \<lparr>valid = Some True, success = None, attendee = None, message = None\<rparr>"
      "\<lparr>valid = Some True, success = None, attendee = None, message = None\<rparr>"
      "checkedIn guest" desk, OF _ _ request_json_ok]
  by (simp add: desk_def initial_def failure_def or_else_def)

subsection \<open>C6: error containment\<close>

text \<open>
  Claim C6 says that no failure propagates out of the controller as an uncaught exception.
  The errors of the validate and of the commit request are caught, as shown above; the
  failures of the camera are not all caught. \<^verbatim>\<open>startScanning\<close> does not await the promise
  of \<^verbatim>\<open>decodeFromVideoDevice\<close>: when the camera is refused after the devices were listed,
  the rejection is unhandled, no camera error is set, no toast is shown and scanning stays
  on. And when \<^verbatim>\<open>listVideoInputDevices\<close> rejects with \<^verbatim>\<open>null\<close>, the \<^verbatim>\<open>catch\<close> block
  itself throws on \<^verbatim>\<open>err.message\<close>, with the same outcome.
\<close>

theorem camera_refusal_unhandled:
  "startScanning unicode (Inr [frontCamera, backCamera]) True
       (RejectsLater (Error (units ''Permission denied''))) (desk\<lparr>scanning := True\<rparr>) =
     desk\<lparr>scanning := True, cameraError := None, toasts := [], codeReaderRef := Some 0,
          nextReader := 1, unhandled := [Error (units ''Permission denied'')]\<rparr> \<and>
   startScanning unicode (Inl NullValue) videoRefCurrent decode (desk\<lparr>scanning := True\<rparr>) =
     desk\<lparr>scanning := True, cameraError := None, toasts := [], codeReaderRef := Some 0,
          nextReader := 1,
          unhandled := [Error (units ''Cannot read properties of null (reading 'message')'')]\<rparr>"
  by (simp add: startScanning_def selectedDeviceId_def desk_def initial_def Let_def
      split: option.splits)

subsection \<open>C7: the choice of the camera\<close>

text \<open>
  Claim C7, for every case mapping of the engine: with no device the scan fails with
  "No camera found" and scanning is turned off; otherwise the stream is opened on the
  chosen device. The first device whose label, lowered, contains "back", "environment" or
  "rear" is chosen; when there is none and there are several devices, the last one is
  chosen; a single device is chosen whatever its label. For a label of ASCII, the label
  is such a one exactly when it holds one of the three words up to the case of each letter.
\<close>

theorem device_selection:
  "(selectedDeviceId unicode ds = None \<longleftrightarrow> ds = []) \<and>
   startScanning unicode (Inr []) v decode s =
     s\<lparr>cameraError := Some (units ''No camera found''), scanning := False,
       codeReaderRef := Some (nextReader s), nextReader := Suc (nextReader s)\<rparr> \<and>
   (\<forall>dev. selectedDeviceId unicode ds = Some dev \<longrightarrow>
      startScanning unicode (Inr ds) True Decoding s =
        s\<lparr>cameraError := None, codeReaderRef := Some (nextReader s),
          nextReader := Suc (nextReader s),
          streams := streams s @ [(nextReader s, dev, selectedEvent s)]\<rparr>) \<and>
   (\<forall>i<length ds.
      isBackCamera unicode (ds ! i) \<and> (\<forall>j<i. \<not> isBackCamera unicode (ds ! j)) \<longrightarrow>
      selectedDeviceId unicode ds = Some (deviceId (ds ! i))) \<and>
   ((\<forall>d\<in>set ds. \<not> isBackCamera unicode d) \<and> length ds > 1 \<longrightarrow>
      selectedDeviceId unicode ds = Some (deviceId (last ds))) \<and>
   (\<not> isBackCamera unicode d \<longrightarrow> selectedDeviceId unicode [d] = Some (deviceId d)) \<and>
   (isBackCamera unicode d \<longleftrightarrow>
      (\<exists>p q. toLowerCase unicode (label d) = p @ units ''back'' @ q) \<or>
      (\<exists>p q. toLowerCase unicode (label d) = p @ units ''environment'' @ q) \<or>
      (\<exists>p q. toLowerCase unicode (label d) = p @ units ''rear'' @ q)) \<and>
   ((\<forall>c\<in>set (label d). c < 0x80) \<longrightarrow>
      (isBackCamera unicode d \<longleftrightarrow>
         (\<exists>p m q. label d = p @ m @ q \<and>
            (list_all2 (\<lambda>x y. x = y \<or> x + 0x20 = y) m (units ''back'') \<or>
             list_all2 (\<lambda>x y. x = y \<or> x + 0x20 = y) m (units ''environment'') \<or>
             list_all2 (\<lambda>x y. x = y \<or> x + 0x20 = y) m (units ''rear'')))))"
proof (intro conjI)
  show "selectedDeviceId unicode ds = None \<longleftrightarrow> ds = []"
    by (auto simp: selectedDeviceId_def split: option.splits)
  show "startScanning unicode (Inr []) v decode s =
     s\<lparr>cameraError := Some (units ''No camera found''), scanning := False,
       codeReaderRef := Some (nextReader s), nextReader := Suc (nextReader s)\<rparr>"
    by (simp add: startScanning_def selectedDeviceId_def Let_def)
  show "\<forall>dev. selectedDeviceId unicode ds = Some dev \<longrightarrow>
      startScanning unicode (Inr ds) True Decoding s =
        s\<lparr>cameraError := None, codeReaderRef := Some (nextReader s),
          nextReader := Suc (nextReader s),
          streams := streams s @ [(nextReader s, dev, selectedEvent s)]\<rparr>"
    by (simp add: startScanning_def Let_def)
  show "\<forall>i<length ds.
      isBackCamera unicode (ds ! i) \<and> (\<forall>j<i. \<not> isBackCamera unicode (ds ! j)) \<longrightarrow>
      selectedDeviceId unicode ds = Some (deviceId (ds ! i))"
  proof (intro allI impI)
    fix i
    assume i: "i < length ds"
      and b: "isBackCamera unicode (ds ! i) \<and> (\<forall>j<i. \<not> isBackCamera unicode (ds ! j))"
    then have "find (isBackCamera unicode) ds = Some (ds ! i)"
      by (auto simp: find_Some_iff)
    with i show "selectedDeviceId unicode ds = Some (deviceId (ds ! i))"
      by (auto simp: selectedDeviceId_def)
  qed
  show "(\<forall>d\<in>set ds. \<not> isBackCamera unicode d) \<and> length ds > 1 \<longrightarrow>
      selectedDeviceId unicode ds = Some (deviceId (last ds))"
  proof (intro impI)
    assume a: "(\<forall>d\<in>set ds. \<not> isBackCamera unicode d) \<and> length ds > 1"
    then have "find (isBackCamera unicode) ds = None"
      by (simp add: find_None_iff)
    moreover from a have "ds \<noteq> []"
      by auto
    ultimately show "selectedDeviceId unicode ds = Some (deviceId (last ds))"
      using a by (simp add: selectedDeviceId_def last_conv_nth)
  qed
  show "\<not> isBackCamera unicode d \<longrightarrow> selectedDeviceId unicode [d] = Some (deviceId d)"
    by (simp add: selectedDeviceId_def)
  show "isBackCamera unicode d \<longleftrightarrow>
      (\<exists>p q. toLowerCase unicode (label d) = p @ units ''back'' @ q) \<or>
      (\<exists>p q. toLowerCase unicode (label d) = p @ units ''environment'' @ q) \<or>
      (\<exists>p q. toLowerCase unicode (label d) = p @ units ''rear'' @ q)"
    unfolding isBackCamera_def str_includes_iff ..
  show "(\<forall>c\<in>set (label d). c < 0x80) \<longrightarrow>
      (isBackCamera unicode d \<longleftrightarrow>
         (\<exists>p m q. label d = p @ m @ q \<and>
            (list_all2 (\<lambda>x y. x = y \<or> x + 0x20 = y) m (units ''back'') \<or>
             list_all2 (\<lambda>x y. x = y \<or> x + 0x20 = y) m (units ''environment'') \<or>
             list_all2 (\<lambda>x y. x = y \<or> x + 0x20 = y) m (units ''rear''))))"
    using isBackCamera_ascii by blast
qed

text \<open>
  The three examples of the specification; a label in capitals, on a device that is not
  the last one; and a label that only the case mapping of Unicode turns into "back".
\<close>

theorem device_selection_witness:
  "selectedDeviceId kelvinMapping [frontCamera, backCamera] = Some (deviceId backCamera) \<and>
   selectedDeviceId kelvinMapping [camera0, camera1] = Some (deviceId camera1) \<and>
   selectedDeviceId kelvinMapping [unlabelled] = Some (deviceId unlabelled) \<and>
   selectedDeviceId kelvinMapping [] = None \<and>
   selectedDeviceId kelvinMapping [capitalsCamera, camera1] = Some (deviceId capitalsCamera) \<and>
   selectedDeviceId kelvinMapping [kelvinCamera, camera1] = Some (deviceId kelvinCamera) \<and>
   streams (startScanning kelvinMapping (Inr [frontCamera, backCamera]) True Decoding desk) =
     [(0, units ''d-back'', units ''E1'')]"
proof -
  have ascii: "\<forall>c\<in>set (label capitalsCamera). c < 0x80"
    by (simp add: capitalsCamera_def units_def)
  have split: "label capitalsCamera = [] @ units ''REAR'' @ units '' CAMERA''"
    and run: "list_all2 (\<lambda>x y. x = y \<or> x + 0x20 = y) (units ''REAR'') (units ''rear'')"
    by (simp_all add: capitalsCamera_def units_def)
  have caps: "isBackCamera kelvinMapping capitalsCamera"
    using device_selection [of kelvinMapping _ _ _ _ capitalsCamera] ascii split run
    by blast
  have b: "isBackCamera kelvinMapping backCamera" "\<not> isBackCamera kelvinMapping frontCamera"
    "\<not> isBackCamera kelvinMapping camera0" "\<not> isBackCamera kelvinMapping camera1"
    "\<not> isBackCamera kelvinMapping unlabelled" "isBackCamera kelvinMapping kelvinCamera"
    by (simp_all add: camera_defs)
  have 1: "selectedDeviceId kelvinMapping [frontCamera, backCamera] = Some (deviceId backCamera)"
    using device_selection [of kelvinMapping "[frontCamera, backCamera]", THEN conjunct2,
        THEN conjunct2, THEN conjunct2, THEN conjunct1, rule_format, of 1] b
    by (simp add: less_Suc_eq)
  have 2: "selectedDeviceId kelvinMapping [camera0, camera1] = Some (deviceId camera1)"
    using device_selection [of kelvinMapping "[camera0, camera1]"] b by simp
  have 3: "selectedDeviceId kelvinMapping [unlabelled] = Some (deviceId unlabelled)"
    using device_selection [where unicode = kelvinMapping and d = unlabelled] b by simp
  have 4: "selectedDeviceId kelvinMapping [] = None"
    using device_selection [of kelvinMapping "[]"] by simp
  have 5: "selectedDeviceId kelvinMapping [capitalsCamera, camera1] =
      Some (deviceId capitalsCamera)"
    using device_selection [of kelvinMapping "[capitalsCamera, camera1]", THEN conjunct2,
        THEN conjunct2, THEN conjunct2, THEN conjunct1, rule_format, of 0] caps
    by simp
  have 6: "selectedDeviceId kelvinMapping [kelvinCamera, camera1] = Some (deviceId kelvinCamera)"
    using device_selection [of kelvinMapping "[kelvinCamera, camera1]", THEN conjunct2,
        THEN conjunct2, THEN conjunct2, THEN conjunct1, rule_format, of 0] b
    by simp
  have 7: "streams (startScanning kelvinMapping (Inr [frontCamera, backCamera]) True Decoding desk) =
      [(0, units ''d-back'', units ''E1'')]"
    using device_selection [of kelvinMapping "[frontCamera, backCamera]" _ _ desk] 1
    by (simp add: desk_def initial_def backCamera_def)
  from 1 2 3 4 5 6 7 show ?thesis by simp
qed

subsection \<open>C8: scanning with no event selected\<close>

text \<open>
  Claim C8, as amended: starting a scan does not look at the selected event (the camera
  error, the scanning flag, the toasts, the reader, the unhandled rejections and the
  device of the stream are the same whatever the selected event), and there is no error
  for a missing event. With no event selected the guard of \<^verbatim>\<open>validateAndCheckIn\<close> drops
  every code, decoded or typed: no request, no result, no message. The decode callback
  still turns scanning off, and the manual form still clears its input.
\<close>

theorem no_event_dropped_silently:
  "validateAndCheckIn [] code validate checkIn s = (None, s) \<and>
   decodeCallback [] (Some code) s = (if code = [] then s else s\<lparr>scanning := False\<rparr>) \<and>
   handleManualSubmit (s\<lparr>selectedEvent := []\<rparr>) =
     (if trim (manualCode s) = [] then s\<lparr>selectedEvent := []\<rparr>
      else s\<lparr>selectedEvent := [], manualCode := []\<rparr>) \<and>
   cameraError (startScanning unicode devices v decode (s\<lparr>selectedEvent := e\<rparr>)) =
     cameraError (startScanning unicode devices v decode s) \<and>
   scanning (startScanning unicode devices v decode (s\<lparr>selectedEvent := e\<rparr>)) =
     scanning (startScanning unicode devices v decode s) \<and>
   toasts (startScanning unicode devices v decode (s\<lparr>selectedEvent := e\<rparr>)) =
     toasts (startScanning unicode devices v decode s) \<and>
   codeReaderRef (startScanning unicode devices v decode (s\<lparr>selectedEvent := e\<rparr>)) =
     codeReaderRef (startScanning unicode devices v decode s) \<and>
   unhandled (startScanning unicode devices v decode (s\<lparr>selectedEvent := e\<rparr>)) =
     unhandled (startScanning unicode devices v decode s) \<and>
   map (\<lambda>(r, dev, event). (r, dev))
       (streams (startScanning unicode devices v decode (s\<lparr>selectedEvent := e\<rparr>))) =
     map (\<lambda>(r, dev, event). (r, dev)) (streams (startScanning unicode devices v decode s))"
  by (simp add: validateAndCheckIn_def validateAndCheckIn_begin_def decodeCallback_def
      call_validateAndCheckIn_def handleManualSubmit_def startScanning_def showError_def Let_def
      split: sum.splits option.splits decode_outcome.splits)

text \<open>The code QR123 on the page as it is first rendered, with no event selected.\<close>

theorem no_event_dropped_silently_witness:
  "validateAndCheckIn [] (units ''QR123'') (recognised guest) (checkedIn guest) initial =
     (None, initial) \<and>
   decodeCallback [] (Some (units ''QR123'')) (initial\<lparr>scanning := True\<rparr>) = initial \<and>
   handleManualSubmit (initial\<lparr>manualCode := units ''QR123''\<rparr>) = initial"
  using no_event_dropped_silently [of "units ''QR123''" "recognised guest" "checkedIn guest" initial]
    no_event_dropped_silently [of "units ''QR123''" _ _ "initial\<lparr>scanning := True\<rparr>"]
    no_event_dropped_silently [of _ _ _ "initial\<lparr>manualCode := units ''QR123''\<rparr>"]
  by (simp add: initial_def trim_def isWhiteSpace_def units_def)

text \<open>
  Against C8 as stated: on the page as it is first rendered no event is selected; after a
  click on "Start Scanning" the effect opens the back camera, and shows no error.
\<close>

theorem start_without_event_counterexample:
  "selectedEvent initial = [] \<and>
   scanningEffect kelvinMapping (Inr [frontCamera, backCamera]) True Decoding
       (initial\<lparr>scanning := True\<rparr>) =
     initial\<lparr>scanning := True, cameraError := None, codeReaderRef := Some 0, nextReader := 1,
             streams := [(0, units ''d-back'', [])], toasts := []\<rparr>"
  by (simp add: scanningEffect_def startScanning_def initial_def camera_defs)

subsection \<open>C9: manual entry\<close>

text \<open>
  Claim C9: submitting the manual form with a code made of white space only (in the sense
  of \<^verbatim>\<open>trim\<close>: every code unit is white space or a line terminator of the language)
  leaves the page as it is, so no request is sent. Submitting any other code has, once the
  server has answered, the effect of \<^verbatim>\<open>validateAndCheckIn\<close> on the trimmed code, and the
  input is cleared; a decode callback with the same code has the same effect, and turns
  scanning off.
\<close>

theorem manual_entry_parity:
  "((\<forall>c\<in>set (manualCode s). isWhiteSpace c) \<longrightarrow> handleManualSubmit s = s) \<and>
   (\<not> (\<forall>c\<in>set (manualCode s). isWhiteSpace c) \<and> pending s = [] \<longrightarrow>
      settle validate checkIn (handleManualSubmit s) =
        (snd (validateAndCheckIn (selectedEvent s) (trim (manualCode s)) validate checkIn s))
          \<lparr>manualCode := []\<rparr> \<and>
      settle validate checkIn (decodeCallback (selectedEvent s) (Some (trim (manualCode s))) s) =
        (snd (validateAndCheckIn (selectedEvent s) (trim (manualCode s)) validate checkIn s))
          \<lparr>scanning := False\<rparr>)"
proof (intro conjI impI)
  assume "\<forall>c\<in>set (manualCode s). isWhiteSpace c"
  then show "handleManualSubmit s = s"
    by (simp add: handleManualSubmit_def trim_blank)
next
  assume a: "\<not> (\<forall>c\<in>set (manualCode s). isWhiteSpace c) \<and> pending s = []"
  then have t: "trim (manualCode s) \<noteq> []" and p: "pending s = []"
    by (simp_all add: trim_blank)
  show "settle validate checkIn (handleManualSubmit s) =
        (snd (validateAndCheckIn (selectedEvent s) (trim (manualCode s)) validate checkIn s))
          \<lparr>manualCode := []\<rparr>"
  proof (cases "selectedEvent s = []")
    case True
    with t p show ?thesis
      by (simp add: handleManualSubmit_def call_validateAndCheckIn_def
          validateAndCheckIn_begin_def validateAndCheckIn_def settle_def)
  next
    case False
    with t p show ?thesis
      by (simp add: handleManualSubmit_def call_validateAndCheckIn_def
          validateAndCheckIn_begin_def validateAndCheckIn_def settle_def resume_manualCode
          resume_pending resume_keeps_pending)
  qed
next
  assume a: "\<not> (\<forall>c\<in>set (manualCode s). isWhiteSpace c) \<and> pending s = []"
  then have t: "trim (manualCode s) \<noteq> []" and p: "pending s = []"
    by (simp_all add: trim_blank)
  show "settle validate checkIn (decodeCallback (selectedEvent s) (Some (trim (manualCode s))) s) =
        (snd (validateAndCheckIn (selectedEvent s) (trim (manualCode s)) validate checkIn s))
          \<lparr>scanning := False\<rparr>"
  proof (cases "selectedEvent s = []")
    case True
    with t p show ?thesis
      by (simp add: decodeCallback_def call_validateAndCheckIn_def validateAndCheckIn_begin_def
          validateAndCheckIn_def settle_def)
  next
    case False
    with t p show ?thesis
      by (simp add: decodeCallback_def call_validateAndCheckIn_def validateAndCheckIn_begin_def
          validateAndCheckIn_def settle_def resume_scanning_begun resume_pending
          resume_keeps_pending)
  qed
qed

text \<open>
  Three spaces; the string of every code unit that \<^verbatim>\<open>trim\<close> removes; the code QR123
  with a no-break space and spaces around it; and a zero width space (U+200B), which is
  not white space of the language and is sent as a code.
\<close>

theorem manual_entry_parity_witness:
  "handleManualSubmit (desk\<lparr>manualCode := units ''   ''\<rparr>) = desk\<lparr>manualCode := units ''   ''\<rparr> \<and>
   handleManualSubmit (desk\<lparr>manualCode := allWhiteSpace\<rparr>) =
     desk\<lparr>manualCode := allWhiteSpace\<rparr> \<and>
   trim (0x00A0 # units '' QR123 '') = units ''QR123'' \<and>
   calls (handleManualSubmit (desk\<lparr>manualCode := [0x200B]\<rparr>)) =
     [GET (units ''/qr/validate/'' @ [0x200B])] \<and>
   settle (recognised guest) (checkedIn guest)
       (handleManualSubmit (desk\<lparr>manualCode := 0x00A0 # units '' QR123 ''\<rparr>)) =
     desk\<lparr>result := Some \<lparr>valid = Some True, success = None,
             attendee = Some (guest\<lparr>checkedInAt := Some (units ''2024-01-01T10:00:00Z'')\<rparr>),
             message = None\<rparr>,
          toasts := [Toast success_toast (units ''Check-in successful!'')],
          calls := [GET (units ''/qr/validate/QR123''), POST (units ''/qr/check-in/QR123'')]\<rparr>"
proof -
  have t: "trim (0x00A0 # units '' QR123 '') = units ''QR123''"
    by (simp add: trim_def isWhiteSpace_def units_def)
  have w: "\<forall>c\<in>set (units ''   ''). isWhiteSpace c"
    "\<forall>c\<in>set allWhiteSpace. isWhiteSpace c"
    and n: "\<not> (\<forall>c\<in>set (0x00A0 # units '' QR123 ''). isWhiteSpace c)"
    by (simp_all add: isWhiteSpace_def units_def allWhiteSpace_def)
  have z: "calls (handleManualSubmit (desk\<lparr>manualCode := [0x200B]\<rparr>)) =
      [GET (units ''/qr/validate/'' @ [0x200B])]"
    by (simp add: handleManualSubmit_def call_validateAndCheckIn_def validateAndCheckIn_begin_def
        trim_def isWhiteSpace_def desk_def initial_def)
  have v: "snd (validateAndCheckIn (units ''E1'') (units ''QR123'') (recognised guest)
             (checkedIn guest) (desk\<lparr>manualCode := 0x00A0 # units '' QR123 ''\<rparr>)) =
     desk\<lparr>manualCode := 0x00A0 # units '' QR123 '',
          result := Some \<lparr>valid = Some True, success = None,
             attendee = Some (guest\<lparr>checkedInAt := Some (units ''2024-01-01T10:00:00Z'')\<rparr>),
             message = None\<rparr>,
          toasts := [Toast success_toast (units ''Check-in successful!'')],
          calls := [GET (units ''/qr/validate/QR123''), POST (units ''/qr/check-in/QR123'')]\<rparr>"
    by (simp add: validate_defs request_recognised request_checkedIn guest_def desk_def
        initial_def)
  have blank1: "handleManualSubmit (desk\<lparr>manualCode := units ''   ''\<rparr>) =
      desk\<lparr>manualCode := units ''   ''\<rparr>"
    using w(1) manual_entry_parity [of "desk\<lparr>manualCode := units ''   ''\<rparr>"] by simp
  have blank2: "handleManualSubmit (desk\<lparr>manualCode := allWhiteSpace\<rparr>) =
      desk\<lparr>manualCode := allWhiteSpace\<rparr>"
    using w(2) manual_entry_parity [of "desk\<lparr>manualCode := allWhiteSpace\<rparr>"]
    by simp
  have sent: "settle (recognised guest) (checkedIn guest)
       (handleManualSubmit (desk\<lparr>manualCode := 0x00A0 # units '' QR123 ''\<rparr>)) =
     desk\<lparr>result := Some \<lparr>valid = Some True, success = None,
             attendee = Some (guest\<lparr>checkedInAt := Some (units ''2024-01-01T10:00:00Z'')\<rparr>),
             message = None\<rparr>,
          toasts := [Toast success_toast (units ''Check-in successful!'')],
          calls := [GET (units ''/qr/validate/QR123''), POST (units ''/qr/check-in/QR123'')]\<rparr>"
    using t n v
      manual_entry_parity [of "desk\<lparr>manualCode := 0x00A0 # units '' QR123 ''\<rparr>"
        "recognised guest" "checkedIn guest"]
    by (simp add: desk_def initial_def)
  from blank1 blank2 t z sent show ?thesis by simp
qed

subsection \<open>C10: stopping twice\<close>

text \<open>
  Claim C10: \<^verbatim>\<open>stopScanning\<close> called twice in a row does what one call does, and the
  second call resets no reader; after a call the ref is empty; with an empty ref, as on
  the page that never started a scan, the call changes nothing.
\<close>

theorem teardown_idempotent:
  "stopScanning (stopScanning s) = stopScanning s \<and>
   resets (stopScanning (stopScanning s)) = resets (stopScanning s) \<and>
   codeReaderRef (stopScanning s) = None \<and>
   stopScanning (s\<lparr>codeReaderRef := None\<rparr>) = s\<lparr>codeReaderRef := None\<rparr> \<and>
   stopScanning initial = initial"
  by (simp add: stopScanning_def reset_def initial_def split: option.splits)

text \<open>Stop, then unmount, on the scanning page: reader 0 is reset once.\<close>

theorem teardown_idempotent_witness:
  "stopScanning scanningPage =
     scanningPage\<lparr>codeReaderRef := None, streams := [], resets := [0]\<rparr> \<and>
   stopScanning (stopScanning scanningPage) =
     scanningPage\<lparr>codeReaderRef := None, streams := [], resets := [0]\<rparr>"
proof -
  have 1: "stopScanning scanningPage =
     scanningPage\<lparr>codeReaderRef := None, streams := [], resets := [0]\<rparr>"
    by (simp add: scanningPage_eq stopScanning_def reset_def initial_def)
  show ?thesis
    using 1 teardown_idempotent [of scanningPage] by simp
qed

end
